theory Spec2Isabelle
  imports Main "HOL-Library.Word"
begin

section \<open>Data model of \<open>VerifierAlgorithm.ts\<close>\<close>

text \<open>
  A \<open>Uint8Array\<close> is a list of 8-bit words. JavaScript numbers that hold a
  recovery value or a chain id are integers here. A string is a list of characters;
  signature strings are base64url text, so one character is one UTF-16 code unit
  and \<open>length\<close> is the source's \<open>.length\<close>.
\<close>

type_synonym byte = "8 word"
type_synonym bytes = "byte list"

text \<open>
  Every \<open>throw\<close> of the source is a value of this type:
  \<open>LengthError\<close> is \<open>Error('wrong signature length')\<close>,
  \<open>SignatureInvalid\<close> is \<open>Error('Signature invalid for JWT')\<close>,
  \<open>UnsupportedAlgorithm alg\<close> is \<open>Error(`Unsupported algorithm ${alg}`)\<close>, and
  \<open>PrimitiveFailure\<close> is an exception raised inside an imported library function.
\<close>

datatype error =
    LengthError
  | SignatureInvalid
  | UnsupportedAlgorithm string
  | PrimitiveFailure string

text \<open>
  \<open>PublicKey\<close> of \<open>did-resolver\<close>: the three mandatory fields and the optional
  key-material fields that the verifiers read. An absent optional field
  (\<open>undefined\<close>) is \<open>None\<close>. The field \<open>id\<close> is \<open>id'\<close> here, since \<open>id\<close> is
  the identity function of HOL.
\<close>

record PublicKey =
  id' :: string
  type :: string
  controller :: string
  publicKeyHex :: "string option"
  ethereumAddress :: "string option"
  publicKeyBase64 :: "string option"

text \<open>
  The candidate array holds object references. A reference is an address, and the
  store maps an address to the object it denotes; the verifiers only read the store.
  Two entries of a list can denote equal objects and still be different references.
\<close>

type_synonym ref = nat
type_synonym store = "ref \<Rightarrow> PublicKey"

text \<open>\<open>EcdsaSignature\<close> of \<open>util.ts\<close>: \<open>{ r: string, s: string, recoveryParam?: number }\<close>.\<close>

record EcdsaSignature =
  r :: string
  s :: string
  recoveryParam :: "int option"

text \<open>
  The imported functions whose code is outside \<open>VerifierAlgorithm.ts\<close> are parameters
  of the model, collected in one record. \<open>'k\<close> is the key object of the elliptic
  library. A function that can raise returns \<open>error + _\<close>; an argument that the
  source may pass as \<open>undefined\<close> is an option.
  \<^item> \<open>base64urlToBytes\<close>, \<open>base64ToBytes\<close>, \<open>bytesToHex\<close>: \<open>./util\<close>;
  \<^item> \<open>sha256\<close>, \<open>hashPersonalMessage\<close>, \<open>toEthereumAddress\<close>: \<open>./Digest\<close>;
  \<^item> \<open>encode\<close>: \<open>@stablelib/utf8\<close>; \<open>verify\<close>: \<open>@stablelib/ed25519\<close>;
  \<^item> \<open>keyFromPublic\<close>, \<open>keyVerify\<close> (\<open>key.verify\<close>), \<open>recoverPubKey\<close>,
    \<open>keyEncode\<close> (\<open>key.encode('hex', compact)\<close>): \<open>elliptic\<close>.
\<close>

record 'k primitives =
  base64urlToBytes :: "string \<Rightarrow> error + bytes"
  base64ToBytes :: "string option \<Rightarrow> error + bytes"
  bytesToHex :: "bytes \<Rightarrow> string"
  sha256 :: "string \<Rightarrow> bytes"
  hashPersonalMessage :: "string \<Rightarrow> bytes"
  toEthereumAddress :: "string \<Rightarrow> string"
  encode :: "string \<Rightarrow> bytes"
  verify :: "bytes \<Rightarrow> bytes \<Rightarrow> bytes \<Rightarrow> error + bool"
  keyFromPublic :: "string option \<Rightarrow> error + 'k"
  keyVerify :: "'k \<Rightarrow> bytes \<Rightarrow> EcdsaSignature \<Rightarrow> error + bool"
  recoverPubKey :: "bytes \<Rightarrow> EcdsaSignature \<Rightarrow> int option \<Rightarrow> error + 'k"
  keyEncode :: "'k \<Rightarrow> bool \<Rightarrow> string"

section \<open>Array helpers\<close>

text \<open>
  \<open>Array.prototype.find\<close> with a callback that can raise: the first exception
  leaves the scan, the first \<open>true\<close> ends it, \<open>undefined\<close> is \<open>None\<close>.
\<close>

fun find_e :: "('a \<Rightarrow> error + bool) \<Rightarrow> 'a list \<Rightarrow> error + 'a option" where
  "find_e p [] = Inr None"
| "find_e p (x # xs) =
     (case p x of
        Inl e \<Rightarrow> Inl e
      | Inr b \<Rightarrow> if b then Inr (Some x) else find_e p xs)"

text \<open>
  \<open>Array.prototype.map\<close> with a callback that can raise: the callback runs on every
  element from left to right, and the first exception leaves the whole \<open>map\<close>.
\<close>

fun map_e :: "('a \<Rightarrow> error + 'b) \<Rightarrow> 'a list \<Rightarrow> error + 'b list" where
  "map_e f [] = Inr []"
| "map_e f (x # xs) =
     (case f x of
        Inl e \<Rightarrow> Inl e
      | Inr y \<Rightarrow> (case map_e f xs of Inl e \<Rightarrow> Inl e | Inr ys \<Rightarrow> Inr (y # ys)))"

text \<open>\<open>.filter(key => key != null)\<close> on an array of results that may be \<open>undefined\<close>.\<close>

fun filter_defined :: "'a option list \<Rightarrow> 'a list" where
  "filter_defined [] = []"
| "filter_defined (None # xs) = filter_defined xs"
| "filter_defined (Some x # xs) = x # filter_defined xs"

section \<open>Signature decoder\<close>

text \<open>
  \<open>calculateSigRecovery(v, chainId?)\<close>. The test \<open>chainId ? ... : ...\<close> is on the
  truthiness of a number: \<open>undefined\<close> and \<open>0\<close> both take the second branch.
\<close>

definition calculateSigRecovery :: "int \<Rightarrow> int option \<Rightarrow> int" where
  "calculateSigRecovery v chainId =
     (if v < 27 then v
      else (case chainId of
              None \<Rightarrow> v - 27
            | Some c \<Rightarrow> if c \<noteq> 0 then v - (2 * c + 35) else v - 27))"

text \<open>
  \<open>toSignatureObject(signature, recoverable = false, chainId?)\<close>.
  \<open>rawsig.slice(0, 32)\<close> is \<open>take 32 rawsig\<close> and \<open>rawsig.slice(32, 64)\<close> is
  \<open>take 32 (drop 32 rawsig)\<close>; \<open>rawsig[64]\<close> is read only after the length check
  has passed with 65 bytes.
\<close>

definition toSignatureObject ::
  "'k primitives \<Rightarrow> string \<Rightarrow> bool \<Rightarrow> int option \<Rightarrow> error + EcdsaSignature" where
  "toSignatureObject P signature recoverable chainId =
     (case base64urlToBytes P signature of
        Inl e \<Rightarrow> Inl e
      | Inr rawsig \<Rightarrow>
          if length rawsig \<noteq> (if recoverable then 65 else 64) then Inl LengthError
          else
            (let sigObj = \<lparr> r = bytesToHex P (take 32 rawsig),
                            s = bytesToHex P (take 32 (drop 32 rawsig)),
                            recoveryParam = None \<rparr>
             in (if recoverable
                 then Inr (sigObj \<lparr> recoveryParam :=
                             Some (calculateSigRecovery (uint (rawsig ! 64)) chainId) \<rparr>)
                 else Inr sigObj)))"

section \<open>Digest selector\<close>

definition sha256OrPersonal :: "'k primitives \<Rightarrow> string \<Rightarrow> bool \<Rightarrow> bytes" where
  "sha256OrPersonal P data ethPersonal =
     (if \<not> ethPersonal then sha256 P data else hashPersonalMessage P data)"

section \<open>ECDSA recoverer\<close>

text \<open>
  \<open>checkSignatureAgainstSigner(data, authenticators, ethPersonal)(sigObj)\<close>.
  \<open>recoverPubKey\<close> is called outside any \<open>try\<close>, so its exception is the result.
  A strict comparison \<open>===\<close> of an absent field with a string is false.
\<close>

definition checkSignatureAgainstSigner ::
  "'k primitives \<Rightarrow> store \<Rightarrow> string \<Rightarrow> ref list \<Rightarrow> bool \<Rightarrow> EcdsaSignature
     \<Rightarrow> error + ref option" where
  "checkSignatureAgainstSigner P h data authenticators ethPersonal sigObj =
     (let hash = sha256OrPersonal P data ethPersonal
      in (case recoverPubKey P hash sigObj (recoveryParam sigObj) of
            Inl e \<Rightarrow> Inl e
          | Inr recoveredKey \<Rightarrow>
              (let recoveredPublicKeyHex = keyEncode P recoveredKey False;
                   recoveredCompressedPublicKeyHex = keyEncode P recoveredKey True;
                   recoveredAddress = toEthereumAddress P recoveredPublicKeyHex
               in Inr (find (\<lambda>a. publicKeyHex (h a) = Some recoveredPublicKeyHex
                               \<or> publicKeyHex (h a) = Some recoveredCompressedPublicKeyHex
                               \<or> ethereumAddress (h a) = Some recoveredAddress)
                        authenticators))))"

text \<open>Lines 77 to 86 of \<open>verifyRecoverableES256K\<close>: the array \<open>signatures\<close>.\<close>

definition recoverableSignatures ::
  "'k primitives \<Rightarrow> string \<Rightarrow> int option \<Rightarrow> error + EcdsaSignature list" where
  "recoverableSignatures P signature chainId =
     (if length signature > 86
      then (case toSignatureObject P signature True chainId of
              Inl e \<Rightarrow> Inl e
            | Inr so \<Rightarrow> Inr [so])
      else (case toSignatureObject P signature False chainId of
              Inl e \<Rightarrow> Inl e
            | Inr so \<Rightarrow> Inr [so \<lparr> recoveryParam := Some 0 \<rparr>,
                             so \<lparr> recoveryParam := Some 1 \<rparr>]))"

definition verifyRecoverableES256K ::
  "'k primitives \<Rightarrow> store \<Rightarrow> string \<Rightarrow> string \<Rightarrow> ref list \<Rightarrow> bool \<Rightarrow> int option
     \<Rightarrow> error + ref" where
  "verifyRecoverableES256K P h data signature authenticators ethPersonal chainId =
     (case recoverableSignatures P signature chainId of
        Inl e \<Rightarrow> Inl e
      | Inr signatures \<Rightarrow>
          (case map_e (checkSignatureAgainstSigner P h data authenticators ethPersonal)
                  signatures of
             Inl e \<Rightarrow> Inl e
           | Inr found \<Rightarrow>
               (case filter_defined found of
                  [] \<Rightarrow> Inl SignatureInvalid
                | signer # _ \<Rightarrow> Inr signer)))"

section \<open>ECDSA verifier\<close>

text \<open>
  The callback of the key scan of \<open>verifyES256K\<close>: the body is inside
  \<open>try { ... } catch (err) { return false }\<close>.
\<close>

definition keyMatches ::
  "'k primitives \<Rightarrow> store \<Rightarrow> bytes \<Rightarrow> EcdsaSignature \<Rightarrow> ref \<Rightarrow> bool" where
  "keyMatches P h hash sigObj a =
     (case keyFromPublic P (publicKeyHex (h a)) of
        Inl err \<Rightarrow> False
      | Inr key \<Rightarrow> (case keyVerify P key hash sigObj of
                     Inl err \<Rightarrow> False
                   | Inr b \<Rightarrow> b))"

definition verifyES256K ::
  "'k primitives \<Rightarrow> store \<Rightarrow> string \<Rightarrow> string \<Rightarrow> ref list \<Rightarrow> bool \<Rightarrow> error + ref" where
  "verifyES256K P h data signature authenticators ethPersonal =
     (let hash = sha256OrPersonal P data ethPersonal
      in (case toSignatureObject P signature False None of
            Inl e \<Rightarrow> Inl e
          | Inr sigObj \<Rightarrow>
              (let fullPublicKeys = filter (\<lambda>a. publicKeyHex (h a) \<noteq> None) authenticators;
                   ethAddressKeys = filter (\<lambda>a. ethereumAddress (h a) \<noteq> None) authenticators
               in (case find (keyMatches P h hash sigObj) fullPublicKeys of
                     Some signer \<Rightarrow> Inr signer
                   | None \<Rightarrow>
                       (if length ethAddressKeys > 0
                        then verifyRecoverableES256K P h data signature ethAddressKeys
                               ethPersonal None
                        else Inl SignatureInvalid)))))"

section \<open>EdDSA verifier\<close>

text \<open>
  \<open>verifyEd25519\<close>: the callback of \<open>find\<close> has no \<open>try\<close>, and reads
  \<open>publicKeyBase64\<close> of every entry of the list as it is.
\<close>

definition verifyEd25519 ::
  "'k primitives \<Rightarrow> store \<Rightarrow> string \<Rightarrow> string \<Rightarrow> ref list \<Rightarrow> error + ref" where
  "verifyEd25519 P h data signature authenticators =
     (let clear = encode P data
      in (case base64urlToBytes P signature of
            Inl e \<Rightarrow> Inl e
          | Inr sig \<Rightarrow>
              (case find_e (\<lambda>a. (case base64ToBytes P (publicKeyBase64 (h a)) of
                                    Inl e \<Rightarrow> Inl e
                                  | Inr key \<Rightarrow> verify P key clear sig))
                      authenticators of
                 Inl e \<Rightarrow> Inl e
               | Inr None \<Rightarrow> Inl SignatureInvalid
               | Inr (Some signer) \<Rightarrow> Inr signer)))"

section \<open>Algorithm dispatcher\<close>

text \<open>
  \<open>Verifier\<close>: \<open>(data, signature, authenticators, eip155?, chainId?) => PublicKey\<close>.
  The two optional arguments are options; a verifier with fewer parameters ignores the
  arguments it has no parameter for, and a parameter declared \<open>ethPersonal = false\<close>
  takes its default when the argument is \<open>undefined\<close>.
\<close>

type_synonym 'k Verifier =
  "'k primitives \<Rightarrow> store \<Rightarrow> string \<Rightarrow> string \<Rightarrow> ref list \<Rightarrow> bool option \<Rightarrow> int option
     \<Rightarrow> error + ref"

definition orFalse :: "bool option \<Rightarrow> bool" where
  "orFalse b = (case b of None \<Rightarrow> False | Some v \<Rightarrow> v)"

text \<open>The own properties of the object literal \<open>algorithms\<close>, in the order written.\<close>

definition algorithms :: "(string \<times> 'k Verifier) list" where
  "algorithms =
     [(''ES256K'', \<lambda>P h data signature authenticators eip155 chainId.
         verifyES256K P h data signature authenticators (orFalse eip155)),
      (''ES256K-R'', \<lambda>P h data signature authenticators eip155 chainId.
         verifyRecoverableES256K P h data signature authenticators (orFalse eip155) chainId),
      (''Ed25519'', \<lambda>P h data signature authenticators eip155 chainId.
         verifyEd25519 P h data signature authenticators),
      (''EdDSA'', \<lambda>P h data signature authenticators eip155 chainId.
         verifyEd25519 P h data signature authenticators)]"

text \<open>
  \<open>algorithms\<close> is an object literal, so its prototype is \<open>Object.prototype\<close>, and
  the property read \<open>algorithms[alg]\<close> follows the prototype chain: a name that is
  not an own property and is a member of \<open>Object.prototype\<close> reads that member.
  These are the members of \<open>Object.prototype\<close> in ECMAScript (with Annex B); each
  is a function or, for \<open>__proto__\<close>, the prototype object, so each is truthy.
\<close>

definition objectPrototype :: "string list" where
  "objectPrototype =
     [''constructor'', ''hasOwnProperty'', ''isPrototypeOf'', ''propertyIsEnumerable'',
      ''toLocaleString'', ''toString'', ''valueOf'', ''__proto__'',
      ''__defineGetter__'', ''__defineSetter__'', ''__lookupGetter__'',
      ''__lookupSetter__'']"

text \<open>
  The value of \<open>algorithms[alg]\<close>: a verifier of the table, a member inherited from
  \<open>Object.prototype\<close> (named, since it is no verifier), or \<open>undefined\<close>
  (\<open>None\<close>).
\<close>

datatype 'k impl = Registered "'k Verifier" | Inherited string

definition getProperty :: "string \<Rightarrow> 'k impl option" where
  "getProperty alg =
     (case map_of algorithms alg of
        Some v \<Rightarrow> Some (Registered v)
      | None \<Rightarrow> if alg \<in> set objectPrototype then Some (Inherited alg) else None)"

definition VerifierAlgorithm :: "string \<Rightarrow> error + 'k impl" where
  "VerifierAlgorithm alg =
     (case getProperty alg of
        None \<Rightarrow> Inl (UnsupportedAlgorithm alg)
      | Some impl \<Rightarrow> Inr impl)"

section \<open>Stand-ins for the imported functions\<close>

text \<open>
  The theorems below hold for every value of the parameter record. To run the model on
  concrete inputs, \<open>stub\<close> gives each imported function a small computable stand-in:
  the decoder of a string of \<open>n\<close> characters yields the codes of its first
  \<open>n * 3 div 4\<close> characters (so 86 characters give 64 bytes and 87 give 65, as base64url
  does), a key object is its own hexadecimal text, a signature object is accepted for
  the key \<open>04\<close> followed by its \<open>r\<close>, recovery with parity 0 gives that key and with
  parity 1 the key built from \<open>s\<close>, any other recovery value raises (as the
  assertion and the search for a second key of the elliptic library do), and decoding
  an absent base64 key raises.
\<close>

definition byteOfChar :: "char \<Rightarrow> byte" where
  "byteOfChar c = of_nat (of_char c)"

definition hexDigits :: string where
  "hexDigits = ''0123456789abcdef''"

definition stub :: "string primitives" where
  "stub = \<lparr>
     base64urlToBytes = (\<lambda>str. Inr (map byteOfChar (take (length str * 3 div 4) str))),
     base64ToBytes = (\<lambda>k. case k of
                          None \<Rightarrow> Inl (PrimitiveFailure ''TypeError'')
                        | Some str \<Rightarrow> Inr (map byteOfChar str)),
     bytesToHex =
       concat \<circ> map (\<lambda>b. [hexDigits ! (unat b div 16), hexDigits ! (unat b mod 16)]),
     sha256 = map byteOfChar,
     hashPersonalMessage = (\<lambda>d. map byteOfChar (''E'' @ d)),
     toEthereumAddress = (\<lambda>hex. ''0x'' @ drop 2 hex),
     encode = map byteOfChar,
     verify = (\<lambda>key clear sig. Inr (sig = key @ clear)),
     keyFromPublic = (\<lambda>k. case k of
                          None \<Rightarrow> Inl (PrimitiveFailure ''invalid key'')
                        | Some hex \<Rightarrow> if take 2 hex = ''04'' then Inr hex
                                      else Inl (PrimitiveFailure ''Unknown point format'')),
     keyVerify = (\<lambda>key hash so. Inr (key = ''04'' @ r so)),
     recoverPubKey = (\<lambda>hash so p.
                        if p = Some 0 then Inr (''04'' @ r so)
                        else if p = Some 1 then Inr (''04'' @ s so)
                        else if p = Some 2 \<or> p = Some 3
                        then Inl (PrimitiveFailure ''Unable to find second key candidate'')
                        else Inl (PrimitiveFailure ''The recovery param is more than two bits'')),
     keyEncode = (\<lambda>k compact. if compact then ''02'' @ take 2 (drop 2 k) else k) \<rparr>"

text \<open>
  A signature string of 87 characters whose 65th character has code \<open>v\<close>: under
  \<open>stub\<close> it decodes to 65 bytes, the last of which is \<open>v\<close>.
\<close>

definition sig65 :: "nat \<Rightarrow> string" where
  "sig65 v = replicate 64 CHR ''A'' @ [char_of v] @ replicate 22 CHR ''A''"

text \<open>
  A signature string of 86 characters that decodes under \<open>stub\<close> to 64 bytes: 32
  bytes 65 (\<open>r\<close>) and 32 bytes 66 (\<open>s\<close>).
\<close>

definition sigAB :: string where
  "sigAB = replicate 32 CHR ''A'' @ replicate 54 CHR ''B''"

text \<open>
  A store of descriptors: 0 holds the full secp256k1 key built from 32 bytes 65, 1 and
  2 hold Ed25519 keys, 3 holds only the address of the key of 0, 5 is a second object
  with the same contents as 1, 6 holds the full key built from 32 bytes 66, and every
  other address holds key text that the key decoder refuses.
\<close>

definition sampleStore :: store where
  "sampleStore a =
     (if a = 0 then \<lparr> id' = ''#keys-2'', type = ''Secp256k1VerificationKey2018'',
                       controller = ''did:x'',
                       publicKeyHex = Some (''04'' @ bytesToHex stub (replicate 32 65)),
                       ethereumAddress = None, publicKeyBase64 = None \<rparr>
      else if a = 1 \<or> a = 5
      then \<lparr> id' = ''#keys-5'', type = ''ED25519SignatureVerification'',
             controller = ''did:x'', publicKeyHex = None,
             ethereumAddress = None, publicKeyBase64 = Some ''k'' \<rparr>
      else if a = 2
      then \<lparr> id' = ''#keys-6'', type = ''ED25519SignatureVerification'',
             controller = ''did:x'', publicKeyHex = None,
             ethereumAddress = None, publicKeyBase64 = Some ''j'' \<rparr>
      else if a = 3
      then \<lparr> id' = ''#keys-3'', type = ''Secp256k1VerificationKey2018'',
             controller = ''did:x'', publicKeyHex = None,
             ethereumAddress = Some (''0x'' @ bytesToHex stub (replicate 32 65)),
             publicKeyBase64 = None \<rparr>
      else if a = 6
      then \<lparr> id' = ''#keys-1'', type = ''Secp256k1VerificationKey2018'',
             controller = ''did:x'',
             publicKeyHex = Some (''04'' @ bytesToHex stub (replicate 32 66)),
             ethereumAddress = None, publicKeyBase64 = None \<rparr>
      else \<lparr> id' = ''#keys-7'', type = ''Secp256k1VerificationKey2018'',
             controller = ''did:x'',
             publicKeyHex = Some (''05'' @ bytesToHex stub (replicate 32 65)),
             ethereumAddress = None, publicKeyBase64 = None \<rparr>)"

section \<open>The stand-ins, evaluated\<close>

lemma stub_base64urlToBytes:
  "base64urlToBytes stub str = Inr (map byteOfChar (take (length str * 3 div 4) str))"
  by (simp add: stub_def)

lemma sig65_bytes:
  "v < 256 \<Longrightarrow> base64urlToBytes stub (sig65 v) = Inr (replicate 64 65 @ [of_nat v])"
  by (simp add: stub_base64urlToBytes sig65_def byteOfChar_def)

lemma stub_Ed:
  "base64ToBytes stub k = (case k of None \<Rightarrow> Inl (PrimitiveFailure ''TypeError'')
                        | Some str \<Rightarrow> Inr (map byteOfChar str))"
  "verify stub key clear sg = Inr (sg = key @ clear)"
  "encode stub = map byteOfChar"
  by (simp_all add: stub_def)

lemma stub_recover:
  "recoverPubKey stub hash so p =
     (if p = Some 0 then Inr (''04'' @ r so)
      else if p = Some 1 then Inr (''04'' @ s so)
      else if p = Some 2 \<or> p = Some 3
      then Inl (PrimitiveFailure ''Unable to find second key candidate'')
      else Inl (PrimitiveFailure ''The recovery param is more than two bits''))"
  "keyEncode stub k compact = (if compact then ''02'' @ take 2 (drop 2 k) else k)"
  "toEthereumAddress stub hex = ''0x'' @ drop 2 hex"
  by (simp_all add: stub_def)

lemma stub_key:
  "keyFromPublic stub k =
     (case k of
        None \<Rightarrow> Inl (PrimitiveFailure ''invalid key'')
      | Some hex \<Rightarrow> if take 2 hex = ''04'' then Inr hex
                    else Inl (PrimitiveFailure ''Unknown point format''))"
  "keyVerify stub key hash so = Inr (key = ''04'' @ r so)"
  by (simp_all add: stub_def)

lemma sigAB_bytes: "base64urlToBytes stub sigAB = Inr (replicate 32 65 @ replicate 32 66)"
  by (simp add: stub_base64urlToBytes sigAB_def byteOfChar_def)

lemma hexA: "bytesToHex stub (replicate 32 65) = concat (replicate 32 ''41'')"
  by (simp add: stub_def hexDigits_def map_replicate)

lemma hexB: "bytesToHex stub (replicate 32 66) = concat (replicate 32 ''42'')"
  by (simp add: stub_def hexDigits_def)

lemma hex_neq: "bytesToHex stub (replicate 32 65) \<noteq> bytesToHex stub (replicate 32 66)"
  unfolding hexA hexB by (simp add: numeral_eq_Suc)

lemma sigAB_object:
  "toSignatureObject stub sigAB False None
      = Inr \<lparr> r = bytesToHex stub (replicate 32 65), s = bytesToHex stub (replicate 32 66),
              recoveryParam = None \<rparr>"
  by (simp add: toSignatureObject_def sigAB_bytes)

lemma sample_keyMatches:
  "keyMatches stub sampleStore hash
     \<lparr> r = bytesToHex stub (replicate 32 65), s = bytesToHex stub (replicate 32 66),
       recoveryParam = None \<rparr> a \<longleftrightarrow> a = 0"
  using hex_neq
  by (simp add: keyMatches_def stub_key sampleStore_def)

lemma sample_check_address:
  "checkSignatureAgainstSigner stub sampleStore ''m'' [3] False
     \<lparr> r = bytesToHex stub (replicate 32 65), s = bytesToHex stub (replicate 32 66),
       recoveryParam = Some 0 \<rparr> = Inr (Some 3)"
  "checkSignatureAgainstSigner stub sampleStore ''m'' [3] False
     \<lparr> r = bytesToHex stub (replicate 32 65), s = bytesToHex stub (replicate 32 66),
       recoveryParam = Some 1 \<rparr> = Inr None"
  using hex_neq
  by (simp_all add: checkSignatureAgainstSigner_def stub_recover sampleStore_def Let_def)

lemma sample_check_parity:
  "checkSignatureAgainstSigner stub sampleStore ''m'' [6, 0] False
     \<lparr> r = bytesToHex stub (replicate 32 65), s = bytesToHex stub (replicate 32 66),
       recoveryParam = Some 0 \<rparr> = Inr (Some 0)"
  "checkSignatureAgainstSigner stub sampleStore ''m'' [6, 0] False
     \<lparr> r = bytesToHex stub (replicate 32 65), s = bytesToHex stub (replicate 32 66),
       recoveryParam = Some 1 \<rparr> = Inr (Some 6)"
  "checkSignatureAgainstSigner stub sampleStore ''m'' [6, 0] False
     \<lparr> r = bytesToHex stub (replicate 32 65), s = bytesToHex stub (replicate 32 65),
       recoveryParam = Some 1 \<rparr> = Inr (Some 0)"
  using hex_neq
  by (simp_all add: checkSignatureAgainstSigner_def stub_recover sampleStore_def Let_def)

section \<open>Signature decoder: length check and components\<close>

text \<open>
  Claim C6. Once the signature string has been decoded to raw bytes,
  \<open>toSignatureObject\<close> fails with the length error exactly when the number of raw
  bytes differs from 64 (non-recoverable) or 65 (recoverable); otherwise it succeeds,
  and bytes 0 to 31 become \<open>r\<close> and bytes 32 to 63 become \<open>s\<close>.
\<close>

theorem toSignatureObject_length:
  assumes "base64urlToBytes P signature = Inr rawsig"
  shows "(length rawsig \<noteq> (if recoverable then 65 else 64) \<longrightarrow>
            toSignatureObject P signature recoverable chainId = Inl LengthError)
       \<and> (length rawsig = (if recoverable then 65 else 64) \<longrightarrow>
            (\<exists>so. toSignatureObject P signature recoverable chainId = Inr so
                \<and> r so = bytesToHex P (take 32 rawsig)
                \<and> s so = bytesToHex P (take 32 (drop 32 rawsig))))"
  using assms by (simp add: toSignatureObject_def Let_def)

text \<open>
  The theorem at two inputs: 88 characters decode to 66 bytes and are refused, and a
  recoverable signature of 65 bytes is split into its two halves.
\<close>

theorem toSignatureObject_length_witness:
  "toSignatureObject stub (replicate 88 CHR ''A'') False None = Inl LengthError
   \<and> (\<exists>so. toSignatureObject stub (sig65 27) True None = Inr so
         \<and> r so = bytesToHex stub (replicate 32 65)
         \<and> s so = bytesToHex stub (replicate 32 65))"
proof -
  have a: "base64urlToBytes stub (replicate 88 CHR ''A'') = Inr (replicate 66 65)"
    by (simp add: stub_base64urlToBytes byteOfChar_def)
  have b: "base64urlToBytes stub (sig65 27) = Inr (replicate 64 65 @ [27])"
    using sig65_bytes [of 27] by simp
  show ?thesis
    using toSignatureObject_length [OF a, of False None]
      toSignatureObject_length [OF b, of True None]
    by simp
qed

section \<open>Signature decoder: the recovery value\<close>

lemma calculateSigRecovery_normal:
  "calculateSigRecovery v chainId \<in> {0, 1} \<longleftrightarrow>
     v \<in> {0, 1} \<or>
     (case chainId of
        None \<Rightarrow> v \<in> {27, 28}
      | Some c \<Rightarrow> if c \<noteq> 0 then 27 \<le> v \<and> v \<in> {2 * c + 35, 2 * c + 36}
                  else v \<in> {27, 28})"
  by (auto simp: calculateSigRecovery_def split: option.splits)

text \<open>
  Claim C5, as amended. Every signature object that \<open>toSignatureObject\<close> returns has
  \<open>r\<close> and \<open>s\<close> equal to the hexadecimal text of exactly 32 bytes each, and has a
  recovery value exactly when a recoverable signature was decoded. The recovery value
  is \<open>calculateSigRecovery\<close> of byte 64 and the chain id, and it is 0 or 1 exactly when
  byte 64 is 0 or 1, or is 27 or 28 and no chain id (or chain id 0) was given, or is
  at least 27 and equal to twice the chain id plus 35 or 36 for a chain id other than 0.
\<close>

theorem toSignatureObject_invariant:
  assumes "toSignatureObject P signature recoverable chainId = Inr so"
  shows "\<exists>rawsig. base64urlToBytes P signature = Inr rawsig
       \<and> r so = bytesToHex P (take 32 rawsig) \<and> length (take 32 rawsig) = 32
       \<and> s so = bytesToHex P (take 32 (drop 32 rawsig))
       \<and> length (take 32 (drop 32 rawsig)) = 32
       \<and> (recoveryParam so \<noteq> None \<longleftrightarrow> recoverable)
       \<and> (\<forall>p. recoveryParam so = Some p \<longrightarrow>
            p = calculateSigRecovery (uint (rawsig ! 64)) chainId
          \<and> (p \<in> {0, 1} \<longleftrightarrow>
               uint (rawsig ! 64) \<in> {0, 1} \<or>
               (case chainId of
                  None \<Rightarrow> uint (rawsig ! 64) \<in> {27, 28}
                | Some c \<Rightarrow>
                    if c \<noteq> 0
                    then 27 \<le> uint (rawsig ! 64)
                       \<and> uint (rawsig ! 64) \<in> {2 * c + 35, 2 * c + 36}
                    else uint (rawsig ! 64) \<in> {27, 28})))"
proof -
  from assms obtain rawsig where raw: "base64urlToBytes P signature = Inr rawsig"
    and len: "length rawsig = (if recoverable then 65 else 64)"
    by (auto simp: toSignatureObject_def split: sum.splits if_splits)
  from assms raw len have so: "so = (if recoverable
       then \<lparr> r = bytesToHex P (take 32 rawsig), s = bytesToHex P (take 32 (drop 32 rawsig)),
              recoveryParam = Some (calculateSigRecovery (uint (rawsig ! 64)) chainId) \<rparr>
       else \<lparr> r = bytesToHex P (take 32 rawsig), s = bytesToHex P (take 32 (drop 32 rawsig)),
              recoveryParam = None \<rparr>)"
    by (auto simp: toSignatureObject_def Let_def split: if_splits)
  have "\<forall>p. recoveryParam so = Some p \<longrightarrow>
            p = calculateSigRecovery (uint (rawsig ! 64)) chainId"
    using so by (simp split: if_splits)
  with raw len so show ?thesis
    using calculateSigRecovery_normal [of "uint (rawsig ! 64)" chainId]
    by (intro exI [of _ rawsig]) (auto split: if_splits)
qed

text \<open>
  The theorem at a chain-bound signature: chain id 31, byte 64 equal to 97.
\<close>

theorem toSignatureObject_invariant_witness:
  "\<exists>rawsig. base64urlToBytes stub (sig65 97) = Inr rawsig
     \<and> length (take 32 rawsig) = 32 \<and> length (take 32 (drop 32 rawsig)) = 32
     \<and> uint (rawsig ! 64) = 97
     \<and> map_sum id recoveryParam (toSignatureObject stub (sig65 97) True (Some 31))
         = Inr (Some 0)"
proof -
  have b: "base64urlToBytes stub (sig65 97) = Inr (replicate 64 65 @ [97])"
    using sig65_bytes [of 97] by simp
  have a: "toSignatureObject stub (sig65 97) True (Some 31)
     = Inr \<lparr> r = bytesToHex stub (replicate 32 65), s = bytesToHex stub (replicate 32 65),
             recoveryParam = Some 0 \<rparr>"
    by (simp add: toSignatureObject_def b calculateSigRecovery_def nth_append)
  from toSignatureObject_invariant [OF a] show ?thesis
    by (simp add: a b nth_append)
qed

text \<open>
  The claim as stated fails: byte 64 equal to 29 with no chain id gives the recovery
  value 2, and the legacy byte 27 decoded with chain id 31 gives \<open>- 70\<close>.
\<close>

theorem recoveryParam_not_normalised:
  "map_sum id recoveryParam (toSignatureObject stub (sig65 29) True None) = Inr (Some 2)
   \<and> map_sum id recoveryParam (toSignatureObject stub (sig65 27) True (Some 31))
       = Inr (Some (- 70))"
  by (simp add: toSignatureObject_def sig65_bytes calculateSigRecovery_def nth_append)

text \<open>
  Claim C3, as amended. For every chain id greater than 0, decoding a recoverable
  signature whose byte 64 is twice the chain id plus 35 (respectively 36) with that
  chain id gives the recovery value 0 (respectively 1), the same as decoding byte 27
  (respectively 28) without a chain id.
\<close>

theorem chain_bound_recovery:
  assumes "0 < c" and "d = 0 \<or> d = 1"
    and "base64urlToBytes P sg1 = Inr raw1" and "length raw1 = 65"
    and "uint (raw1 ! 64) = c * 2 + 35 + d"
    and "base64urlToBytes P sg2 = Inr raw2" and "length raw2 = 65"
    and "uint (raw2 ! 64) = 27 + d"
  shows "\<exists>so1 so2. toSignatureObject P sg1 True (Some c) = Inr so1
           \<and> toSignatureObject P sg2 True None = Inr so2
           \<and> recoveryParam so1 = Some d \<and> recoveryParam so2 = Some d"
  using assms by (auto simp: toSignatureObject_def calculateSigRecovery_def Let_def)

text \<open>The theorem at chain id 31 and the odd parity: bytes 98 and 28.\<close>

theorem chain_bound_recovery_witness:
  "map_sum id recoveryParam (toSignatureObject stub (sig65 98) True (Some 31)) = Inr (Some 1)
   \<and> map_sum id recoveryParam (toSignatureObject stub (sig65 28) True None) = Inr (Some 1)"
proof -
  have a: "base64urlToBytes stub (sig65 98) = Inr (replicate 64 65 @ [98])"
    using sig65_bytes [of 98] by simp
  have b: "base64urlToBytes stub (sig65 28) = Inr (replicate 64 65 @ [28])"
    using sig65_bytes [of 28] by simp
  have "\<exists>so1 so2. toSignatureObject stub (sig65 98) True (Some 31) = Inr so1
           \<and> toSignatureObject stub (sig65 28) True None = Inr so2
           \<and> recoveryParam so1 = Some 1 \<and> recoveryParam so2 = Some 1"
    by (rule chain_bound_recovery [OF _ _ a _ _ b]) (simp_all add: nth_append)
  then show ?thesis by auto
qed

text \<open>
  The claim as stated fails at chain id 0: the number 0 is falsy, so byte
  \<open>0 * 2 + 35\<close> is decoded by the legacy rule and gives 8, while byte 27 without a
  chain id gives 0.
\<close>

theorem chain_zero_not_normalised:
  "map_sum id recoveryParam (toSignatureObject stub (sig65 (0 * 2 + 35)) True (Some 0))
     = Inr (Some 8)
   \<and> map_sum id recoveryParam (toSignatureObject stub (sig65 27) True None) = Inr (Some 0)"
  by (simp add: toSignatureObject_def sig65_bytes calculateSigRecovery_def nth_append)

section \<open>Algorithm dispatcher\<close>

lemma VerifierAlgorithm_unknown:
  assumes "alg \<notin> {''ES256K'', ''ES256K-R'', ''Ed25519'', ''EdDSA''}"
    and "alg \<notin> set objectPrototype"
  shows "VerifierAlgorithm alg = Inl (UnsupportedAlgorithm alg)"
  using assms by (simp add: VerifierAlgorithm_def getProperty_def algorithms_def)

lemma VerifierAlgorithm_BADALGO:
  "VerifierAlgorithm ''BADALGO'' = Inl (UnsupportedAlgorithm ''BADALGO'')"
  by (simp add: VerifierAlgorithm_def getProperty_def algorithms_def objectPrototype_def)

text \<open>
  Claim C4 says that every identifier other than the four registered ones is refused
  with \<open>UnsupportedAlgorithm\<close>. The dispatcher refuses \<open>BADALGO\<close> and every name
  that is neither registered nor a member of \<open>Object.prototype\<close> (the two lemmas
  above), but for the identifier \<open>toString\<close> the property read finds the inherited
  member, which is truthy, and the dispatcher returns it instead of failing.
\<close>

theorem VerifierAlgorithm_inherited:
  "VerifierAlgorithm ''toString'' = Inr (Inherited ''toString'')"
  by (simp add: VerifierAlgorithm_def getProperty_def algorithms_def objectPrototype_def)

text \<open>
  Claim C9. The verifier that the dispatcher returns for \<open>ES256K\<close> is
  \<open>verifyES256K\<close> applied to the first four arguments; the chain id is not passed
  on, so two calls that differ only in the chain id have the same outcome.
\<close>

theorem ES256K_ignores_chainId:
  "\<exists>v. VerifierAlgorithm ''ES256K'' = Inr (Registered v)
     \<and> (\<forall>P h data sg auths eip155 c1 c2.
           v P h data sg auths eip155 c1 = verifyES256K P h data sg auths (orFalse eip155)
         \<and> v P h data sg auths eip155 c1 = v P h data sg auths eip155 c2)"
  by (simp add: VerifierAlgorithm_def getProperty_def algorithms_def)

section \<open>EdDSA verifier\<close>


lemma find_e_mem: "find_e p xs = Inr (Some a) \<Longrightarrow> a \<in> set xs"
  by (induction xs) (auto split: sum.splits if_splits)




section \<open>ECDSA recoverer\<close>

text \<open>
  Claim C2. With the signature string decoded to raw bytes: a string longer than 86
  characters is decoded once as a recoverable signature of 65 bytes with the given
  chain id, and that one signature object is tried; otherwise the 64 bytes give one
  signature object from which exactly two are built, with recovery value 0 and then
  1, both are tried in that order, and the result is the match of the first if it has
  one, else the match of the second, else \<open>SignatureInvalid\<close>. A wrong number of
  bytes is the length error.
\<close>

theorem verifyRecoverableES256K_attempts:
  assumes "base64urlToBytes P signature = Inr rawsig"
  shows "(86 < length signature \<and> length rawsig \<noteq> 65 \<or>
          \<not> 86 < length signature \<and> length rawsig \<noteq> 64 \<longrightarrow>
            verifyRecoverableES256K P h data signature auths ethPersonal chainId
              = Inl LengthError)
       \<and> (86 < length signature \<and> length rawsig = 65 \<longrightarrow>
            (\<exists>so. toSignatureObject P signature True chainId = Inr so
               \<and> recoverableSignatures P signature chainId = Inr [so]
               \<and> verifyRecoverableES256K P h data signature auths ethPersonal chainId
                   = (case checkSignatureAgainstSigner P h data auths ethPersonal so of
                        Inl e \<Rightarrow> Inl e
                      | Inr None \<Rightarrow> Inl SignatureInvalid
                      | Inr (Some a) \<Rightarrow> Inr a)))
       \<and> (\<not> 86 < length signature \<and> length rawsig = 64 \<longrightarrow>
            (\<exists>so. toSignatureObject P signature False chainId = Inr so
               \<and> recoverableSignatures P signature chainId
                   = Inr [so \<lparr> recoveryParam := Some 0 \<rparr>, so \<lparr> recoveryParam := Some 1 \<rparr>]
               \<and> verifyRecoverableES256K P h data signature auths ethPersonal chainId
                   = (case checkSignatureAgainstSigner P h data auths ethPersonal
                             (so \<lparr> recoveryParam := Some 0 \<rparr>) of
                        Inl e \<Rightarrow> Inl e
                      | Inr m0 \<Rightarrow>
                          (case checkSignatureAgainstSigner P h data auths ethPersonal
                                  (so \<lparr> recoveryParam := Some 1 \<rparr>) of
                             Inl e \<Rightarrow> Inl e
                           | Inr m1 \<Rightarrow>
                               (case m0 of
                                  Some a \<Rightarrow> Inr a
                                | None \<Rightarrow> (case m1 of
                                             Some b \<Rightarrow> Inr b
                                           | None \<Rightarrow> Inl SignatureInvalid))))))"
proof (intro conjI impI)
  assume "86 < length signature \<and> length rawsig \<noteq> 65 \<or>
          \<not> 86 < length signature \<and> length rawsig \<noteq> 64"
  with assms show "verifyRecoverableES256K P h data signature auths ethPersonal chainId
              = Inl LengthError"
    by (auto simp: verifyRecoverableES256K_def recoverableSignatures_def toSignatureObject_def)
next
  assume a: "86 < length signature \<and> length rawsig = 65"
  with assms obtain so where so: "toSignatureObject P signature True chainId = Inr so"
    by (auto simp: toSignatureObject_def Let_def)
  with a show "\<exists>so. toSignatureObject P signature True chainId = Inr so
               \<and> recoverableSignatures P signature chainId = Inr [so]
               \<and> verifyRecoverableES256K P h data signature auths ethPersonal chainId
                   = (case checkSignatureAgainstSigner P h data auths ethPersonal so of
                        Inl e \<Rightarrow> Inl e
                      | Inr None \<Rightarrow> Inl SignatureInvalid
                      | Inr (Some a) \<Rightarrow> Inr a)"
    by (auto simp: verifyRecoverableES256K_def recoverableSignatures_def
        split: sum.splits option.splits)
next
  assume a: "\<not> 86 < length signature \<and> length rawsig = 64"
  with assms obtain so where so: "toSignatureObject P signature False chainId = Inr so"
    by (auto simp: toSignatureObject_def Let_def)
  with a show "\<exists>so. toSignatureObject P signature False chainId = Inr so
               \<and> recoverableSignatures P signature chainId
                   = Inr [so \<lparr> recoveryParam := Some 0 \<rparr>, so \<lparr> recoveryParam := Some 1 \<rparr>]
               \<and> verifyRecoverableES256K P h data signature auths ethPersonal chainId
                   = (case checkSignatureAgainstSigner P h data auths ethPersonal
                             (so \<lparr> recoveryParam := Some 0 \<rparr>) of
                        Inl e \<Rightarrow> Inl e
                      | Inr m0 \<Rightarrow>
                          (case checkSignatureAgainstSigner P h data auths ethPersonal
                                  (so \<lparr> recoveryParam := Some 1 \<rparr>) of
                             Inl e \<Rightarrow> Inl e
                           | Inr m1 \<Rightarrow>
                               (case m0 of
                                  Some a \<Rightarrow> Inr a
                                | None \<Rightarrow> (case m1 of
                                             Some b \<Rightarrow> Inr b
                                           | None \<Rightarrow> Inl SignatureInvalid))))"
    by (auto simp: verifyRecoverableES256K_def recoverableSignatures_def
        split: sum.splits option.splits)
qed

text \<open>
  The theorem on the sample store with the candidates \<open>[6, 0]\<close>. For the 86
  characters of \<open>sigAB\<close>, parity 0 recovers the key of 0 and parity 1 the key of 6:
  the result is 0, the match of parity 0, although 6 stands first in the list. The 87
  characters of \<open>sig65 28\<close> are decoded once, with recovery value 1. The 88
  characters that decode to 66 bytes are refused.
\<close>

theorem verifyRecoverableES256K_attempts_witness:
  "verifyRecoverableES256K stub sampleStore ''m'' sigAB [6, 0] False None = Inr 0
   \<and> verifyRecoverableES256K stub sampleStore ''m'' (sig65 28) [6, 0] False None = Inr 0
   \<and> verifyRecoverableES256K stub sampleStore ''m'' (replicate 88 CHR ''A'') [6, 0] False None
       = Inl LengthError"
proof -
  have l: "\<not> 86 < length sigAB" "86 < length (sig65 28)"
    by (simp_all add: sigAB_def sig65_def)
  have b: "base64urlToBytes stub (sig65 28) = Inr (replicate 64 65 @ [28])"
    using sig65_bytes [of 28] by simp
  have so2: "toSignatureObject stub (sig65 28) True None
      = Inr \<lparr> r = bytesToHex stub (replicate 32 65), s = bytesToHex stub (replicate 32 65),
              recoveryParam = Some 1 \<rparr>"
    by (simp add: toSignatureObject_def b calculateSigRecovery_def nth_append)
  have d: "base64urlToBytes stub (replicate 88 CHR ''A'') = Inr (replicate 66 65)"
    by (simp add: stub_base64urlToBytes byteOfChar_def)
  show ?thesis
    using verifyRecoverableES256K_attempts
        [OF sigAB_bytes, of sampleStore "''m''" "[6, 0]" False None]
      verifyRecoverableES256K_attempts [OF b, of sampleStore "''m''" "[6, 0]" False None]
      verifyRecoverableES256K_attempts [OF d, of sampleStore "''m''" "[6, 0]" False None]
    by (simp add: l sigAB_object so2 sample_check_parity)
qed

section \<open>ECDSA verifier\<close>

lemma keyMatches_catches:
  "keyFromPublic P (publicKeyHex (h a)) = Inl e \<Longrightarrow> keyMatches P h hash so a = False"
  "keyFromPublic P (publicKeyHex (h a)) = Inr key \<Longrightarrow> keyVerify P key hash so = Inl e
     \<Longrightarrow> keyMatches P h hash so a = False"
  "keyFromPublic P (publicKeyHex (h a)) = Inr key \<Longrightarrow> keyVerify P key hash so = Inr b
     \<Longrightarrow> keyMatches P h hash so a = b"
  by (simp_all add: keyMatches_def)

lemma find_skip:
  "\<forall>b \<in> set before. \<not> p b \<Longrightarrow> find p (before @ xs) = find p xs"
  by (induction before) auto

lemma verifyES256K_skips_malformed:
  assumes "toSignatureObject P signature False None = Inr so"
    and "\<forall>b \<in> set before. publicKeyHex (h b) \<noteq> None \<longrightarrow>
           \<not> keyMatches P h (sha256OrPersonal P data ethPersonal) so b"
    and "publicKeyHex (h a) \<noteq> None"
    and "keyMatches P h (sha256OrPersonal P data ethPersonal) so a"
  shows "verifyES256K P h data signature (before @ a # rest) ethPersonal = Inr a"
proof -
  let ?p = "keyMatches P h (sha256OrPersonal P data ethPersonal) so"
  let ?f = "filter (\<lambda>a. publicKeyHex (h a) \<noteq> None)"
  from assms(2) have "\<forall>b \<in> set (?f before). \<not> ?p b" by simp
  then have "find ?p (?f before @ a # ?f rest) = find ?p (a # ?f rest)"
    by (rule find_skip)
  with assms(1,3,4) show ?thesis
    by (simp add: verifyES256K_def Let_def)
qed

text \<open>
  Claim C7. Let the signature decode to a 64-byte signature object, \<open>keys\<close> be the
  candidates with a \<open>publicKeyHex\<close> and \<open>addrs\<close> those with an
  \<open>ethereumAddress\<close>, both in list order. The first entry of \<open>keys\<close> that verifies
  is returned. When none verifies and \<open>addrs\<close> is not empty, the result is that of
  the recoverer on \<open>addrs\<close> with no chain id; for a signature string of at most 86
  characters (the unpadded base64url text of 64 bytes) the recoverer tries parity 0
  and then parity 1 and returns the first match. \<open>SignatureInvalid\<close> is raised
  only when no key verifies and either there is no address candidate or the recoverer
  finds no match.
\<close>

theorem verifyES256K_fallback:
  assumes "toSignatureObject P signature False None = Inr so"
    and "keys = filter (\<lambda>a. publicKeyHex (h a) \<noteq> None) auths"
    and "addrs = filter (\<lambda>a. ethereumAddress (h a) \<noteq> None) auths"
    and "hash = sha256OrPersonal P data ethPersonal"
  shows "(\<forall>a. find (keyMatches P h hash so) keys = Some a \<longrightarrow>
            verifyES256K P h data signature auths ethPersonal = Inr a)
       \<and> (find (keyMatches P h hash so) keys = None \<and> addrs \<noteq> [] \<longrightarrow>
            verifyES256K P h data signature auths ethPersonal
              = verifyRecoverableES256K P h data signature addrs ethPersonal None)
       \<and> (find (keyMatches P h hash so) keys = None \<and> addrs \<noteq> []
            \<and> length signature \<le> 86 \<longrightarrow>
            verifyES256K P h data signature auths ethPersonal
              = (case checkSignatureAgainstSigner P h data addrs ethPersonal
                        (so \<lparr> recoveryParam := Some 0 \<rparr>) of
                   Inl e \<Rightarrow> Inl e
                 | Inr m0 \<Rightarrow>
                     (case checkSignatureAgainstSigner P h data addrs ethPersonal
                             (so \<lparr> recoveryParam := Some 1 \<rparr>) of
                        Inl e \<Rightarrow> Inl e
                      | Inr m1 \<Rightarrow>
                          (case m0 of
                             Some a \<Rightarrow> Inr a
                           | None \<Rightarrow> (case m1 of
                                        Some b \<Rightarrow> Inr b
                                      | None \<Rightarrow> Inl SignatureInvalid)))))
       \<and> (find (keyMatches P h hash so) keys = None \<and> addrs = [] \<longrightarrow>
            verifyES256K P h data signature auths ethPersonal = Inl SignatureInvalid)
       \<and> (verifyES256K P h data signature auths ethPersonal = Inl SignatureInvalid \<longrightarrow>
            find (keyMatches P h hash so) keys = None
          \<and> (addrs = [] \<or>
               verifyRecoverableES256K P h data signature addrs ethPersonal None
                 = Inl SignatureInvalid))"
proof -
  have rec: "length signature \<le> 86 \<Longrightarrow>
      verifyRecoverableES256K P h data signature addrs ethPersonal None
        = (case checkSignatureAgainstSigner P h data addrs ethPersonal
                        (so \<lparr> recoveryParam := Some 0 \<rparr>) of
                   Inl e \<Rightarrow> Inl e
                 | Inr m0 \<Rightarrow>
                     (case checkSignatureAgainstSigner P h data addrs ethPersonal
                             (so \<lparr> recoveryParam := Some 1 \<rparr>) of
                        Inl e \<Rightarrow> Inl e
                      | Inr m1 \<Rightarrow>
                          (case m0 of
                             Some a \<Rightarrow> Inr a
                           | None \<Rightarrow> (case m1 of
                                        Some b \<Rightarrow> Inr b
                                      | None \<Rightarrow> Inl SignatureInvalid))))"
    using assms(1)
    by (auto simp: verifyRecoverableES256K_def recoverableSignatures_def
        split: sum.splits option.splits)
  have main: "verifyES256K P h data signature auths ethPersonal
      = (case find (keyMatches P h hash so) keys of
           Some a \<Rightarrow> Inr a
         | None \<Rightarrow> if addrs \<noteq> []
                   then verifyRecoverableES256K P h data signature addrs ethPersonal None
                   else Inl SignatureInvalid)"
    unfolding assms(2,3,4) using assms(1)
    by (simp add: verifyES256K_def Let_def split: option.splits)
  show ?thesis
    using rec by (auto simp: main split: option.splits)
qed

text \<open>
  The theorem on the sample store with the signature \<open>sigAB\<close>: in \<open>[4, 0, 3]\<close>
  the refused key text of 4 is passed over and the key of 0 verifies; in \<open>[4, 6, 3]\<close>
  no key verifies and the address of 3 is found by recovery; in \<open>[4, 6]\<close> there is
  no address candidate and the signature is invalid.
\<close>

theorem verifyES256K_fallback_witness:
  "verifyES256K stub sampleStore ''m'' sigAB [4, 0, 3] False = Inr 0
   \<and> verifyES256K stub sampleStore ''m'' sigAB [4, 6, 3] False = Inr 3
   \<and> verifyES256K stub sampleStore ''m'' sigAB [4, 6] False = Inl SignatureInvalid"
proof -
  have k1: "[4, 0] = filter (\<lambda>a. publicKeyHex (sampleStore a) \<noteq> None) [4, 0, 3]"
    and a1: "[3] = filter (\<lambda>a. ethereumAddress (sampleStore a) \<noteq> None) [4, 0, 3]"
    and k2: "[4, 6] = filter (\<lambda>a. publicKeyHex (sampleStore a) \<noteq> None) [4, 6, 3]"
    and a2: "[3] = filter (\<lambda>a. ethereumAddress (sampleStore a) \<noteq> None) [4, 6, 3]"
    and k3: "[4, 6] = filter (\<lambda>a. publicKeyHex (sampleStore a) \<noteq> None) [4, 6]"
    and a3: "[] = filter (\<lambda>a. ethereumAddress (sampleStore a) \<noteq> None) [4, 6]"
    by (simp_all add: sampleStore_def)
  have l: "length sigAB \<le> 86"
    by (simp add: sigAB_def)
  show ?thesis
    using verifyES256K_fallback [OF sigAB_object k1 a1 refl, of "''m''" False]
      verifyES256K_fallback [OF sigAB_object k2 a2 refl, of "''m''" False]
      verifyES256K_fallback [OF sigAB_object k3 a3 refl, of "''m''" False]
    by (auto simp: sample_keyMatches sample_check_address l)
qed

section \<open>The result is an entry of the candidate list\<close>

lemma find_mem: "find p xs = Some a \<Longrightarrow> a \<in> set xs"
  by (induction xs) (auto split: if_splits)

lemma checkSignatureAgainstSigner_mem:
  "checkSignatureAgainstSigner P h data auths ethPersonal so = Inr (Some a) \<Longrightarrow> a \<in> set auths"
  by (auto simp: checkSignatureAgainstSigner_def Let_def split: sum.splits dest: find_mem)

lemma map_e_mem:
  "map_e f xs = Inr ys \<Longrightarrow> y \<in> set ys \<Longrightarrow> \<exists>x \<in> set xs. f x = Inr y"
  by (induction xs arbitrary: ys) (auto split: sum.splits)

lemma filter_defined_set: "set (filter_defined xs) = {a. Some a \<in> set xs}"
  by (induction xs rule: filter_defined.induct) auto

lemma verifyRecoverableES256K_mem:
  assumes "verifyRecoverableES256K P h data sg auths ethPersonal chainId = Inr a"
  shows "a \<in> set auths"
proof -
  from assms obtain sigs found rest where
    m: "map_e (checkSignatureAgainstSigner P h data auths ethPersonal) sigs = Inr found"
    and f: "filter_defined found = a # rest"
    by (auto simp: verifyRecoverableES256K_def split: sum.splits list.splits)
  from f have "a \<in> set (filter_defined found)" by simp
  then have "Some a \<in> set found" by (simp add: filter_defined_set)
  with m obtain so where
    "checkSignatureAgainstSigner P h data auths ethPersonal so = Inr (Some a)"
    by (blast dest: map_e_mem)
  then show ?thesis by (rule checkSignatureAgainstSigner_mem)
qed

lemma verifyES256K_mem:
  assumes "verifyES256K P h data sg auths ethPersonal = Inr a"
  shows "a \<in> set auths"
proof -
  from assms consider
    (key) so where "find (keyMatches P h (sha256OrPersonal P data ethPersonal) so)
                      (filter (\<lambda>a. publicKeyHex (h a) \<noteq> None) auths) = Some a"
  | (addr) "verifyRecoverableES256K P h data sg
              (filter (\<lambda>a. ethereumAddress (h a) \<noteq> None) auths) ethPersonal None = Inr a"
    by (auto simp: verifyES256K_def Let_def split: sum.splits option.splits if_splits)
  then show ?thesis
  proof cases
    case key
    then have "a \<in> set (filter (\<lambda>a. publicKeyHex (h a) \<noteq> None) auths)"
      by (rule find_mem)
    then show ?thesis by simp
  next
    case addr
    then have "a \<in> set (filter (\<lambda>a. ethereumAddress (h a) \<noteq> None) auths)"
      by (rule verifyRecoverableES256K_mem)
    then show ?thesis by simp
  qed
qed

lemma verifyEd25519_mem:
  assumes "verifyEd25519 P h data sg auths = Inr a"
  shows "a \<in> set auths"
  using assms
  by (auto simp: verifyEd25519_def Let_def split: sum.splits option.splits dest: find_e_mem)

lemma VerifierAlgorithm_registered:
  assumes "VerifierAlgorithm alg = Inr (Registered v)"
  shows "v = (\<lambda>P h data sg auths eip155 chainId. verifyES256K P h data sg auths (orFalse eip155))
       \<or> v = (\<lambda>P h data sg auths eip155 chainId.
                verifyRecoverableES256K P h data sg auths (orFalse eip155) chainId)
       \<or> v = (\<lambda>P h data sg auths eip155 chainId. verifyEd25519 P h data sg auths)"
  using assms
  by (auto simp: VerifierAlgorithm_def getProperty_def algorithms_def
      split: option.splits if_splits)

text \<open>
  Claim C8. Whenever a verifier of the table returns a descriptor, the reference it
  returns is an entry of the candidate list it was given: the object itself, since
  the verifiers return references and never build a descriptor.
\<close>

theorem verifier_returns_candidate:
  assumes "VerifierAlgorithm alg = Inr (Registered v)"
    and "v P h data sg auths eip155 chainId = Inr a"
  shows "a \<in> set auths"
  using VerifierAlgorithm_registered [OF assms(1)] assms(2)
  by (auto dest: verifyES256K_mem verifyRecoverableES256K_mem verifyEd25519_mem)

text \<open>
  The theorem on the sample store: 5 and 1 hold equal contents, and the verifier
  returns the reference 5, the entry that stands first.
\<close>

theorem verifier_returns_candidate_witness:
  "\<exists>v. VerifierAlgorithm ''EdDSA'' = Inr (Registered v)
     \<and> v stub sampleStore ''m'' ''kmA'' [2, 5, 1] None None = Inr 5
     \<and> (5::nat) \<in> set [2, 5, 1]"
proof -
  let ?v = "\<lambda>(P :: string primitives) h data sg auths (eip155 :: bool option)
              (chainId :: int option). verifyEd25519 P h data sg auths"
  have a: "VerifierAlgorithm ''EdDSA'' = Inr (Registered ?v)"
    by (simp add: VerifierAlgorithm_def getProperty_def algorithms_def)
  have b: "?v stub sampleStore ''m'' ''kmA'' [2, 5, 1] None None = Inr 5"
    by (simp add: verifyEd25519_def stub_base64urlToBytes stub_Ed sampleStore_def byteOfChar_def)
  from verifier_returns_candidate [OF a b] a b show ?thesis
    by blast
qed

section \<open>Failures of the imported functions during a scan\<close>

lemma checkSignatureAgainstSigner_raises:
  "recoverPubKey P (sha256OrPersonal P data ethPersonal) so (recoveryParam so) = Inl e
     \<Longrightarrow> checkSignatureAgainstSigner P h data auths ethPersonal so = Inl e"
  by (simp add: checkSignatureAgainstSigner_def)

text \<open>
  Claim C1 says that in every scan a failure of an imported function on one candidate
  or attempt counts as no match and the scan goes on. The key scan of \<open>verifyES256K\<close>
  does this (lemmas \<open>keyMatches_catches\<close> and \<open>verifyES256K_skips_malformed\<close>). The
  other two scans have no \<open>try\<close>. In the Ed25519 scan, the descriptor 0 has no
  \<open>publicKeyBase64\<close>, the decoder raises on it, and the valid descriptor 1 behind it
  is never reached, although alone it is returned. In the recoverer, a recovery that
  raises (here on the recovery byte 26) is the result of the call (lemma
  \<open>checkSignatureAgainstSigner_raises\<close>), not \<open>SignatureInvalid\<close>.
\<close>

theorem scan_aborts_on_primitive_failure:
  "verifyEd25519 stub sampleStore ''m'' ''kmA'' [0, 1] = Inl (PrimitiveFailure ''TypeError'')
   \<and> verifyEd25519 stub sampleStore ''m'' ''kmA'' [1] = Inr 1
   \<and> verifyRecoverableES256K stub sampleStore ''m'' (sig65 26) [0] False None
       = Inl (PrimitiveFailure ''The recovery param is more than two bits'')"
  by (simp add: verifyEd25519_def stub_base64urlToBytes stub_Ed sampleStore_def byteOfChar_def
      verifyRecoverableES256K_def recoverableSignatures_def toSignatureObject_def sig65_bytes
      checkSignatureAgainstSigner_def stub_recover calculateSigRecovery_def nth_append
      sig65_def)

end
